theory Spec2Isabelle
  imports Main
begin

section \<open>Errors, the storage provider and the user preferences\<close>

text \<open>
  A Go \<open>error\<close> value. The two sentinels of package \<open>storage\<close> are compared by identity
  in \<open>loadInfo\<close>, so each is a constructor of its own. \<open>ErrorString s\<close> is an error
  made by \<open>errors.New\<close> or \<open>fmt.Errorf\<close> whose text is \<open>s\<close>; \<open>Errorf s err\<close> is the
  error made by \<open>fmt.Errorf\<close> from a format that ends in \<open>%s\<close>, with \<open>s\<close> the text
  before the verb and \<open>err\<close> the error printed by it.
\<close>

datatype error =
    ErrNoU2FDeviceHandle
  | ErrNoTOTPSecret
  | ErrorString string
  | Errorf string error

text \<open>
  The methods of \<open>storage.Provider\<close> called by the handlers. A Go result
  \<open>(value, err)\<close> with \<open>err != nil\<close> is \<open>Inl err\<close>; a returned \<open>error\<close> alone is an
  \<open>error option\<close>, \<open>None\<close> for \<open>nil\<close>.
\<close>

record Provider =
  LoadPreferred2FAMethod :: "string \<Rightarrow> error + string"
  LoadU2FDeviceHandle :: "string \<Rightarrow> error + (string \<times> string)"
  LoadTOTPSecret :: "string \<Rightarrow> error + string"
  SavePreferred2FAMethod :: "string \<Rightarrow> string \<Rightarrow> error option"

record UserPreferences =
  Method :: string
  HasU2F :: bool
  HasTOTP :: bool

section \<open>loadInfo: three goroutines and a wait group\<close>

text \<open>
  \<open>loadInfo\<close> starts three goroutines that share \<open>preferences\<close>, \<open>errors\<close> and the
  logger, and waits for them with \<open>wg.Wait()\<close>. The model is an interleaving of atomic
  steps. A goroutine is at one of these points:
  \<^item> \<open>Start\<close>: it has not run yet;
  \<^item> \<open>Appending err old\<close>: its lookup failed with \<open>err\<close> and, executing
    \<open>errors = append(errors, err)\<close>, it has read the slice \<open>errors\<close> (value \<open>old\<close>) and
    has not yet assigned the appended slice back. The source takes no lock around
    this statement, so other goroutines may run between the read and the assignment;
  \<^item> \<open>Logging err\<close>: it has assigned \<open>errors\<close> and is about to call \<open>logger.Error(err)\<close>;
  \<^item> \<open>Done\<close>: it has returned, and its deferred \<open>wg.Done()\<close> has run;
  \<^item> \<open>Panicked\<close>: it hit the run-time panic of \<open>PossibleMethods[0]\<close> on an empty
    slice; its deferred \<open>wg.Done()\<close> has run, and the panic, which nothing recovers,
    ends the process.

  The read of \<open>errors\<close> and the assignment to it are each taken as one atomic step
  on the whole slice, and a call of \<open>logger.Error\<close> as one atomic step that adds its
  entry: the interleavings of the model are executions the Go program has, and a
  property that fails on one of them fails on the program.
\<close>

datatype task = MethodTask | U2FTask | TOTPTask

datatype pc = Start | Appending error "error list" | Logging error | Done | Panicked

record state =
  preferences :: UserPreferences
  errors :: "error list"
  logger :: "error list"
  wg :: int
  pc :: "task \<Rightarrow> pc"

definition wg_Done :: "state \<Rightarrow> state" where
  "wg_Done s = s\<lparr>wg := wg s - 1\<rparr>"

definition return :: "task \<Rightarrow> state \<Rightarrow> state" where
  "return t s = wg_Done (s\<lparr>pc := (pc s)(t := Done)\<rparr>)"

definition panic :: "task \<Rightarrow> state \<Rightarrow> state" where
  "panic t s = wg_Done (s\<lparr>pc := (pc s)(t := Panicked)\<rparr>)"

definition read_errors :: "task \<Rightarrow> error \<Rightarrow> state \<Rightarrow> state" where
  "read_errors t err s = s\<lparr>pc := (pc s)(t := Appending err (errors s))\<rparr>"

text \<open>
  The first goroutine. \<open>PossibleMethods\<close> is the slice \<open>authentication.PossibleMethods\<close>,
  defined outside the files modelled here and therefore a parameter.
\<close>

definition method_goroutine :: "string list \<Rightarrow> Provider \<Rightarrow> string \<Rightarrow> state \<Rightarrow> state" where
  "method_goroutine PossibleMethods storageProvider username s =
     (case LoadPreferred2FAMethod storageProvider username of
        Inl err \<Rightarrow> read_errors MethodTask err s
      | Inr method \<Rightarrow>
          if method = [] then
            (case PossibleMethods of
               [] \<Rightarrow> panic MethodTask s
             | m # _ \<Rightarrow> return MethodTask (s\<lparr>preferences := (preferences s)\<lparr>Method := m\<rparr>\<rparr>))
          else return MethodTask (s\<lparr>preferences := (preferences s)\<lparr>Method := method\<rparr>\<rparr>))"

definition u2f_goroutine :: "Provider \<Rightarrow> string \<Rightarrow> state \<Rightarrow> state" where
  "u2f_goroutine storageProvider username s =
     (case LoadU2FDeviceHandle storageProvider username of
        Inl err \<Rightarrow>
          if err = ErrNoU2FDeviceHandle then return U2FTask s
          else read_errors U2FTask err s
      | Inr _ \<Rightarrow> return U2FTask (s\<lparr>preferences := (preferences s)\<lparr>HasU2F := True\<rparr>\<rparr>))"

definition totp_goroutine :: "Provider \<Rightarrow> string \<Rightarrow> state \<Rightarrow> state" where
  "totp_goroutine storageProvider username s =
     (case LoadTOTPSecret storageProvider username of
        Inl err \<Rightarrow>
          if err = ErrNoTOTPSecret then return TOTPTask s
          else read_errors TOTPTask err s
      | Inr _ \<Rightarrow> return TOTPTask (s\<lparr>preferences := (preferences s)\<lparr>HasTOTP := True\<rparr>\<rparr>))"

text \<open>
  One step of goroutine \<open>t\<close>. From \<open>Start\<close> it runs its lookup and the branch taken on the
  result (the lookups are functions of the user name, and the three goroutines write
  different fields, so nothing another goroutine does can be observed in between).
  A goroutine that has returned or panicked has no step left.
\<close>

definition step :: "string list \<Rightarrow> Provider \<Rightarrow> string \<Rightarrow> task \<Rightarrow> state \<Rightarrow> state" where
  "step PossibleMethods storageProvider username t s =
     (case pc s t of
        Start \<Rightarrow>
          (case t of
             MethodTask \<Rightarrow> method_goroutine PossibleMethods storageProvider username s
           | U2FTask \<Rightarrow> u2f_goroutine storageProvider username s
           | TOTPTask \<Rightarrow> totp_goroutine storageProvider username s)
      | Appending err old \<Rightarrow> s\<lparr>errors := old @ [err], pc := (pc s)(t := Logging err)\<rparr>
      | Logging err \<Rightarrow> return t (s\<lparr>logger := logger s @ [err]\<rparr>)
      | Done \<Rightarrow> s
      | Panicked \<Rightarrow> s)"

text \<open>A schedule is the order in which the goroutines take their steps.\<close>

fun run :: "string list \<Rightarrow> Provider \<Rightarrow> string \<Rightarrow> task list \<Rightarrow> state \<Rightarrow> state" where
  "run PossibleMethods storageProvider username [] s = s"
| "run PossibleMethods storageProvider username (t # sched) s =
     run PossibleMethods storageProvider username sched
       (step PossibleMethods storageProvider username t s)"

text \<open>
  The state after \<open>wg.Add(3)\<close> and \<open>errors := make([]error, 0)\<close>. The logger field
  collects what the call passes to \<open>logger.Error\<close>.
\<close>

definition init :: "UserPreferences \<Rightarrow> state" where
  "init p = \<lparr>preferences = p, errors = [], logger = [], wg = 3, pc = (\<lambda>_. Start)\<rparr>"

definition panicked :: "state \<Rightarrow> bool" where
  "panicked s =
     (pc s MethodTask = Panicked \<or> pc s U2FTask = Panicked \<or> pc s TOTPTask = Panicked)"

text \<open>
  \<open>loadInfo\<close> under a schedule: \<open>wg.Wait()\<close> lets the caller go on once the counter is
  zero, and the call then returns \<open>errors\<close>; the caller reads the preferences through
  its pointer. The result is \<open>None\<close> when the schedule ends with the caller still
  blocked in \<open>wg.Wait()\<close>, or when a goroutine panicked.
\<close>

definition loadInfo ::
  "string list \<Rightarrow> string \<Rightarrow> Provider \<Rightarrow> UserPreferences \<Rightarrow> task list
     \<Rightarrow> (UserPreferences \<times> error list \<times> error list) option" where
  "loadInfo PossibleMethods username storageProvider p sched =
     (let s = run PossibleMethods storageProvider username sched (init p)
      in if panicked s then None
         else if wg s = 0 then Some (preferences s, errors s, logger s)
         else None)"

section \<open>The handlers\<close>

text \<open>
  What the handlers use of \<open>middlewares.AutheliaCtx\<close>. That package is outside the
  files modelled here, so the context is the data the handlers read and a record of the
  calls they make on it:
  \<^item> \<open>Username\<close> is \<open>ctx.GetSession().Username\<close>, \<open>StorageProvider\<close> is
    \<open>ctx.Providers.StorageProvider\<close>;
  \<^item> \<open>ParseBody\<close> is what \<open>ctx.ParseBody(&bodyJSON)\<close> yields on the body of this
    request: the error, or the body it filled in;
  \<^item> \<open>Logger\<close> is what has been passed to \<open>ctx.Logger\<close>, in order;
  \<^item> \<open>Response\<close> is the last of \<open>ctx.Error(err, message)\<close>, \<open>ctx.SetJSONBody(v)\<close>
    and \<open>ctx.ReplyOK()\<close> that was called, with its arguments;
  \<^item> \<open>Saved\<close> lists the calls of \<open>SavePreferred2FAMethod\<close>, in order.
\<close>

datatype MethodBody = MethodBody (MethodBody_Method: string)

datatype log_entry = LogError error | LogDebug string

datatype response =
    NoResponse
  | CtxError error string
  | JSONBody UserPreferences
  | ReplyOK

record AutheliaCtx =
  Username :: string
  StorageProvider :: Provider
  ParseBody :: "error + MethodBody"
  Logger :: "log_entry list"
  Response :: response
  Saved :: "(string \<times> string) list"

definition ctx_Error :: "error \<Rightarrow> string \<Rightarrow> AutheliaCtx \<Rightarrow> AutheliaCtx" where
  "ctx_Error err message ctx = ctx\<lparr>Response := CtxError err message\<rparr>"

definition ctx_SetJSONBody :: "UserPreferences \<Rightarrow> AutheliaCtx \<Rightarrow> AutheliaCtx" where
  "ctx_SetJSONBody v ctx = ctx\<lparr>Response := JSONBody v\<rparr>"

definition ctx_ReplyOK :: "AutheliaCtx \<Rightarrow> AutheliaCtx" where
  "ctx_ReplyOK ctx = ctx\<lparr>Response := ReplyOK\<rparr>"

text \<open>\<open>UserPreferences{}\<close>: the zero value that \<open>UserInfoGet\<close> hands to \<open>loadInfo\<close>.\<close>

definition UserPreferences_zero :: UserPreferences where
  "UserPreferences_zero = \<lparr>Method = [], HasU2F = False, HasTOTP = False\<rparr>"

text \<open>
  \<open>UserInfoGet\<close> under a schedule of the goroutines of its \<open>loadInfo\<close> call. The logger
  given to \<open>loadInfo\<close> is \<open>ctx.Logger\<close>. \<open>operationFailedMessage\<close> is a constant of
  package \<open>handlers\<close> defined outside the files modelled here, and a parameter here.
\<close>

definition UserInfoGet ::
  "string list \<Rightarrow> string \<Rightarrow> AutheliaCtx \<Rightarrow> task list \<Rightarrow> AutheliaCtx option" where
  "UserInfoGet PossibleMethods operationFailedMessage ctx sched =
     (case loadInfo PossibleMethods (Username ctx) (StorageProvider ctx) UserPreferences_zero sched of
        None \<Rightarrow> None
      | Some (prefs, errs, logged) \<Rightarrow>
          let ctx' = ctx\<lparr>Logger := Logger ctx @ map LogError logged\<rparr>
          in if length errs > 0 then
               Some (ctx_Error (ErrorString ''Unable to load user information'')
                       operationFailedMessage ctx')
             else Some (ctx_SetJSONBody prefs ctx'))"

text \<open>\<open>strings.Join\<close> of the Go library.\<close>

fun Join :: "string list \<Rightarrow> string \<Rightarrow> string" where
  "Join [] sep = []"
| "Join [x] sep = x"
| "Join (x # y # ys) sep = x @ sep @ Join (y # ys) sep"

text \<open>
  Modelled from the spec: \<open>utils.IsStringInSlice\<close> is outside the files modelled here. The
  spec has the handler validate the method "against the closed set of supported
  methods": the function tells whether the string is an entry of the slice.
\<close>

definition IsStringInSlice :: "string \<Rightarrow> string list \<Rightarrow> bool" where
  "IsStringInSlice a slice = (a \<in> set slice)"

definition MethodPreferencePost :: "string list \<Rightarrow> string \<Rightarrow> AutheliaCtx \<Rightarrow> AutheliaCtx" where
  "MethodPreferencePost PossibleMethods operationFailedMessage ctx =
     (case ParseBody ctx of
        Inl err \<Rightarrow> ctx_Error err operationFailedMessage ctx
      | Inr bodyJSON \<Rightarrow>
          if \<not> IsStringInSlice (MethodBody_Method bodyJSON) PossibleMethods then
            ctx_Error
              (ErrorString (''Unknown method '' @ [CHR 0x27] @ MethodBody_Method bodyJSON @ [CHR 0x27]
                 @ '', it should be one of '' @ Join PossibleMethods '', ''))
              operationFailedMessage ctx
          else
            let ctx1 = ctx\<lparr>Logger := Logger ctx @
                         [LogDebug (''Save new preferred 2FA method of user '' @ Username ctx
                            @ '' to '' @ MethodBody_Method bodyJSON)]\<rparr>;
                ctx2 = ctx1\<lparr>Saved := Saved ctx1 @ [(Username ctx, MethodBody_Method bodyJSON)]\<rparr>
            in (case SavePreferred2FAMethod (StorageProvider ctx) (Username ctx)
                       (MethodBody_Method bodyJSON) of
                  Some err \<Rightarrow>
                    ctx_Error (Errorf ''Unable to save new preferred 2FA method: '' err)
                      operationFailedMessage ctx2
                | None \<Rightarrow> ctx_ReplyOK ctx2))"

section \<open>The OpenID Connect key manager\<close>

text \<open>
  Keys of \<open>crypto/rsa\<close> by value, and the \<open>JSONWebKey\<close> and \<open>JSONWebKeySet\<close> of go-jose
  with the fields \<open>AddActiveKey\<close> sets.
\<close>

record rsa_PublicKey =
  modulus :: int
  exponent :: int

record rsa_PrivateKey =
  PublicKey :: rsa_PublicKey
  private_exponent :: int

record JSONWebKey =
  Key :: rsa_PublicKey
  KeyID :: string
  Algorithm :: string
  Use :: string

record JSONWebKeySet =
  Keys :: "JSONWebKey list"

text \<open>
  \<open>RS256JWTStrategy\<close>: of the fosite strategy it decorates, the model keeps the
  \<open>PrivateKey\<close> field, which \<open>SetKey\<close> assigns (\<open>None\<close> in a strategy just made).
\<close>

record RS256JWTStrategy =
  JWTStrategy_PrivateKey :: "rsa_PrivateKey option"
  keyID :: string

record KeyManager =
  activeKeyID :: string
  keys :: "string \<rightharpoonup> rsa_PrivateKey"
  keySet :: JSONWebKeySet
  strategy :: "RS256JWTStrategy option"

definition GetActiveKeyID :: "KeyManager \<Rightarrow> string" where
  "GetActiveKeyID m = activeKeyID m"

definition GetActiveKey :: "KeyManager \<Rightarrow> error + rsa_PublicKey" where
  "GetActiveKey m =
     (case keys m (activeKeyID m) of
        Some key \<Rightarrow> Inr (PublicKey key)
      | None \<Rightarrow> Inl (ErrorString ''failed to retrieve active key''))"

definition GetActivePrivateKey :: "KeyManager \<Rightarrow> error + rsa_PrivateKey" where
  "GetActivePrivateKey m =
     (case keys m (activeKeyID m) of
        Some key \<Rightarrow> Inr key
      | None \<Rightarrow> Inl (ErrorString ''failed to retrieve active key''))"

text \<open>
  \<open>AddActiveKey\<close> returns the manager as the call leaves it, with the web key or the
  error. \<open>Thumbprint\<close> is \<open>wk.Thumbprint(crypto.SHA256)\<close> of go-jose, a parameter.
\<close>

definition AddActiveKey ::
  "(JSONWebKey \<Rightarrow> error + string) \<Rightarrow> KeyManager \<Rightarrow> rsa_PrivateKey
     \<Rightarrow> KeyManager \<times> (error + JSONWebKey)" where
  "AddActiveKey Thumbprint m key =
     (let wk = \<lparr>Key = PublicKey key, KeyID = [], Algorithm = ''RS256'', Use = ''sig''\<rparr>
      in case Thumbprint wk of
           Inl err \<Rightarrow> (m, Inl err)
         | Inr strKeyID \<Rightarrow>
             if keys m strKeyID \<noteq> None then
               (m, Inl (ErrorString (''key id '' @ strKeyID @ '' already exists'')))
             else
               let wk' = wk\<lparr>KeyID := strKeyID\<rparr>
               in (m\<lparr>keySet := (keySet m)\<lparr>Keys := Keys (keySet m) @ [wk']\<rparr>,
                      keys := (keys m)(strKeyID \<mapsto> key)\<rparr>,
                   Inr wk'))"

text \<open>
  \<open>AddActiveKeyData\<close>; \<open>ParseRsaPrivateKeyFromPemStr\<close> is of package \<open>utils\<close>, outside the
  files modelled here, and a parameter. With an error the Go function also returns the key
  it parsed, which its one caller drops.
\<close>

definition AddActiveKeyData ::
  "(string \<Rightarrow> error + rsa_PrivateKey) \<Rightarrow> (JSONWebKey \<Rightarrow> error + string) \<Rightarrow> KeyManager \<Rightarrow> string
     \<Rightarrow> KeyManager \<times> (error + rsa_PrivateKey \<times> JSONWebKey)" where
  "AddActiveKeyData ParseRsaPrivateKeyFromPemStr Thumbprint m data =
     (case ParseRsaPrivateKeyFromPemStr data of
        Inl err \<Rightarrow> (m, Inl err)
      | Inr key \<Rightarrow>
          (case AddActiveKey Thumbprint m key of
             (m', Inl err) \<Rightarrow> (m', Inl err)
           | (m', Inr webKey) \<Rightarrow> (m', Inr (key, webKey))))"

definition SetKey :: "string \<Rightarrow> rsa_PrivateKey \<Rightarrow> RS256JWTStrategy \<Rightarrow> RS256JWTStrategy" where
  "SetKey id' key s = s\<lparr>keyID := id', JWTStrategy_PrivateKey := Some key\<rparr>"

definition NewRS256JWTStrategy :: "string \<Rightarrow> rsa_PrivateKey \<Rightarrow> error + RS256JWTStrategy" where
  "NewRS256JWTStrategy id' key =
     Inr (SetKey id' key \<lparr>JWTStrategy_PrivateKey = None, keyID = []\<rparr>)"

text \<open>
  \<open>NewKeyManager\<close>; its argument is \<open>configuration.IssuerPrivateKey\<close>.
\<close>

definition NewKeyManager ::
  "(string \<Rightarrow> error + rsa_PrivateKey) \<Rightarrow> (JSONWebKey \<Rightarrow> error + string) \<Rightarrow> string
     \<Rightarrow> error + KeyManager" where
  "NewKeyManager ParseRsaPrivateKeyFromPemStr Thumbprint IssuerPrivateKey =
     (let manager = \<lparr>activeKeyID = [], keys = Map.empty, keySet = \<lparr>Keys = []\<rparr>, strategy = None\<rparr>
      in case AddActiveKeyData ParseRsaPrivateKeyFromPemStr Thumbprint manager IssuerPrivateKey of
           (manager, Inl err) \<Rightarrow> Inl err
         | (manager, Inr (key, webKey)) \<Rightarrow>
             (case NewRS256JWTStrategy (KeyID webKey) key of
                Inl err \<Rightarrow> Inl err
              | Inr s \<Rightarrow> Inr (manager\<lparr>strategy := Some s\<rparr>)))"

section \<open>The access control engine\<close>

text \<open>
  Modelled from the spec: the Access Control Engine (its rules, the matching of a rule
  and \<open>Evaluate\<close>) is not among the files modelled here. The definitions follow sections 3
  and 4.1 of the specification. The specification names the kinds of pattern (a domain
  pattern that is an exact host or a wildcard for subdomains, path patterns, CIDR
  ranges) and not their syntax, so what it means for one pattern to match is a
  parameter, \<open>Matchers\<close>.
\<close>

datatype PolicyLevel = bypass | one_factor | two_factor | deny

datatype subject_criterion = any_subject | user_subject string | group_subject string

record Rule =
  domain :: string
  resources :: "string list"
  subject :: subject_criterion
  networks :: "string list"
  methods :: "string list"
  policy :: PolicyLevel

record RuleSet =
  rules :: "Rule list"
  defaultPolicy :: PolicyLevel

record Request =
  subject_name :: string
  subject_groups :: "string list"
  host :: string
  resourcePath :: string
  network :: string
  http_method :: string

record Matchers =
  domain_match :: "string \<Rightarrow> string \<Rightarrow> bool"
  resource_match :: "string \<Rightarrow> string \<Rightarrow> bool"
  network_match :: "string \<Rightarrow> string \<Rightarrow> bool"

text \<open>
  Modelled from the spec: the subject criterion of a rule, which is not among the
  files modelled here. "\<open>any\<close> always matches; \<open>user:<name>\<close> matches exact authenticated username;
  \<open>group:<name>\<close> matches if the user belongs to that group."
\<close>

fun subject_matches :: "subject_criterion \<Rightarrow> Request \<Rightarrow> bool" where
  "subject_matches any_subject q = True"
| "subject_matches (user_subject name) q = (subject_name q = name)"
| "subject_matches (group_subject name) q = (name \<in> set (subject_groups q))"

text \<open>
  Modelled from the spec: the matching of a rule, which is not among the files modelled here. "A
  rule matches iff every present criterion matches the request": its domain, one of
  its path patterns, its subject, one of its networks and its methods, where a rule
  without resources, networks or methods accepts any.
\<close>

definition rule_matches :: "Matchers \<Rightarrow> Rule \<Rightarrow> Request \<Rightarrow> bool" where
  "rule_matches M r q =
     (domain_match M (domain r) (host q) \<and>
      (resources r = [] \<or> list_ex (\<lambda>p. resource_match M p (resourcePath q)) (resources r)) \<and>
      subject_matches (subject r) q \<and>
      (networks r = [] \<or> list_ex (\<lambda>c. network_match M c (network q)) (networks r)) \<and>
      (methods r = [] \<or> http_method q \<in> set (methods r)))"

text \<open>
  Modelled from the spec: \<open>Evaluate\<close>, which is not among the files modelled here. "Iterate rules in
  their configured order ... the first fully-matching rule's policy is returned ... if
  no rule matches, the RuleSet's \<open>defaultPolicy\<close> is returned."
\<close>

fun evaluate_rules :: "Matchers \<Rightarrow> Rule list \<Rightarrow> PolicyLevel \<Rightarrow> Request \<Rightarrow> PolicyLevel" where
  "evaluate_rules M [] d q = d"
| "evaluate_rules M (r # rs) d q =
     (if rule_matches M r q then policy r else evaluate_rules M rs d q)"

definition Evaluate :: "Matchers \<Rightarrow> RuleSet \<Rightarrow> Request \<Rightarrow> PolicyLevel" where
  "Evaluate M rs q = evaluate_rules M (rules rs) (defaultPolicy rs) q"

section \<open>What the claims speak of\<close>

text \<open>
  The error, if any, that a goroutine of \<open>loadInfo\<close> appends for a user: the failure of
  its lookup that is not its not-found sentinel. The first lookup has no sentinel.
\<close>

definition method_failure :: "Provider \<Rightarrow> string \<Rightarrow> error option" where
  "method_failure sp u =
     (case LoadPreferred2FAMethod sp u of Inl err \<Rightarrow> Some err | Inr _ \<Rightarrow> None)"

definition u2f_failure :: "Provider \<Rightarrow> string \<Rightarrow> error option" where
  "u2f_failure sp u =
     (case LoadU2FDeviceHandle sp u of
        Inl err \<Rightarrow> if err = ErrNoU2FDeviceHandle then None else Some err
      | Inr _ \<Rightarrow> None)"

definition totp_failure :: "Provider \<Rightarrow> string \<Rightarrow> error option" where
  "totp_failure sp u =
     (case LoadTOTPSecret sp u of
        Inl err \<Rightarrow> if err = ErrNoTOTPSecret then None else Some err
      | Inr _ \<Rightarrow> None)"

fun failure :: "Provider \<Rightarrow> string \<Rightarrow> task \<Rightarrow> error option" where
  "failure sp u MethodTask = method_failure sp u"
| "failure sp u U2FTask = u2f_failure sp u"
| "failure sp u TOTPTask = totp_failure sp u"

definition failures :: "Provider \<Rightarrow> string \<Rightarrow> error set" where
  "failures sp u =
     set_option (method_failure sp u) \<union> set_option (u2f_failure sp u) \<union>
     set_option (totp_failure sp u)"

text \<open>
  A schedule is fair when it gives every goroutine the three steps that its longest
  path takes. The one panic of \<open>loadInfo\<close> needs an empty preferred method and an empty
  \<open>PossibleMethods\<close>.
\<close>

definition fair :: "task list \<Rightarrow> bool" where
  "fair sched =
     (3 \<le> count_list sched MethodTask \<and> 3 \<le> count_list sched U2FTask \<and>
      3 \<le> count_list sched TOTPTask)"

definition may_panic :: "string list \<Rightarrow> Provider \<Rightarrow> string \<Rightarrow> bool" where
  "may_panic pm sp u = (LoadPreferred2FAMethod sp u = Inr [] \<and> pm = [])"

text \<open>The method that the first goroutine stores when its lookup succeeds.\<close>

definition chosen_method :: "string list \<Rightarrow> Provider \<Rightarrow> string \<Rightarrow> string \<Rightarrow> string" where
  "chosen_method pm sp u m0 =
     (case LoadPreferred2FAMethod sp u of
        Inl _ \<Rightarrow> m0
      | Inr method \<Rightarrow> if method = [] then (case pm of [] \<Rightarrow> m0 | m # _ \<Rightarrow> m) else method)"

subsection \<open>Invariants of the interleaving\<close>

text \<open>
  Each invariant relates the shared state to the points the three goroutines have
  reached; \<open>inv\<close> collects them.
\<close>

fun pc_ok :: "error option \<Rightarrow> pc \<Rightarrow> bool" where
  "pc_ok f (Appending e old) = (f = Some e)"
| "pc_ok f (Logging e) = (f = Some e)"
| "pc_ok f _ = True"

definition pcs_ok :: "Provider \<Rightarrow> string \<Rightarrow> state \<Rightarrow> bool" where
  "pcs_ok sp u s =
     (pc_ok (method_failure sp u) (pc s MethodTask) \<and> pc_ok (u2f_failure sp u) (pc s U2FTask) \<and>
      pc_ok (totp_failure sp u) (pc s TOTPTask))"

fun pending :: "pc \<Rightarrow> int" where
  "pending Done = 0"
| "pending Panicked = 0"
| "pending _ = 1"

definition wg_ok :: "state \<Rightarrow> bool" where
  "wg_ok s =
     (wg s = pending (pc s MethodTask) + pending (pc s U2FTask) + pending (pc s TOTPTask))"

fun wrote :: "error option \<Rightarrow> pc \<Rightarrow> bool" where
  "wrote f (Logging e) = True"
| "wrote f Done = (f \<noteq> None)"
| "wrote f _ = False"

definition errors_ok :: "Provider \<Rightarrow> string \<Rightarrow> state \<Rightarrow> bool" where
  "errors_ok sp u s =
     ((errors s = []) =
      (\<not> wrote (method_failure sp u) (pc s MethodTask) \<and>
       \<not> wrote (u2f_failure sp u) (pc s U2FTask) \<and>
       \<not> wrote (totp_failure sp u) (pc s TOTPTask)))"

fun held :: "pc \<Rightarrow> error set" where
  "held (Appending e old) = set old"
| "held _ = {}"

definition errors_sub :: "Provider \<Rightarrow> string \<Rightarrow> state \<Rightarrow> bool" where
  "errors_sub sp u s =
     (set (errors s) \<subseteq> failures sp u \<and> held (pc s MethodTask) \<subseteq> failures sp u \<and>
      held (pc s U2FTask) \<subseteq> failures sp u \<and> held (pc s TOTPTask) \<subseteq> failures sp u)"

fun logged_by :: "error option \<Rightarrow> pc \<Rightarrow> error set" where
  "logged_by f Done = set_option f"
| "logged_by f _ = {}"

definition logger_ok :: "Provider \<Rightarrow> string \<Rightarrow> state \<Rightarrow> bool" where
  "logger_ok sp u s =
     (set (logger s) =
      logged_by (method_failure sp u) (pc s MethodTask) \<union>
      logged_by (u2f_failure sp u) (pc s U2FTask) \<union>
      logged_by (totp_failure sp u) (pc s TOTPTask))"

definition preferences_ok ::
  "string list \<Rightarrow> Provider \<Rightarrow> string \<Rightarrow> UserPreferences \<Rightarrow> state \<Rightarrow> bool" where
  "preferences_ok pm sp u p0 s =
     (Method (preferences s) =
        (if pc s MethodTask = Done then chosen_method pm sp u (Method p0) else Method p0) \<and>
      HasU2F (preferences s) =
        (HasU2F p0 \<or> pc s U2FTask = Done \<and> isl (LoadU2FDeviceHandle sp u) = False) \<and>
      HasTOTP (preferences s) =
        (HasTOTP p0 \<or> pc s TOTPTask = Done \<and> isl (LoadTOTPSecret sp u) = False))"

definition panic_ok :: "string list \<Rightarrow> Provider \<Rightarrow> string \<Rightarrow> state \<Rightarrow> bool" where
  "panic_ok pm sp u s = (panicked s \<longrightarrow> may_panic pm sp u)"

definition inv :: "string list \<Rightarrow> Provider \<Rightarrow> string \<Rightarrow> UserPreferences \<Rightarrow> state \<Rightarrow> bool" where
  "inv pm sp u p0 s =
     (pcs_ok sp u s \<and> wg_ok s \<and> errors_ok sp u s \<and> errors_sub sp u s \<and> logger_ok sp u s \<and>
      preferences_ok pm sp u p0 s \<and> panic_ok pm sp u s)"

text \<open>The steps a goroutine still has to take, at most.\<close>

fun remaining :: "pc \<Rightarrow> nat" where
  "remaining Start = 3"
| "remaining (Appending e old) = 2"
| "remaining (Logging e) = 1"
| "remaining Done = 0"
| "remaining Panicked = 0"

section \<open>Inputs for the examples\<close>

text \<open>
  A slice of methods, providers for one user, a request context and three schedules: \<open>round_robin\<close> is
  fair, \<open>racing\<close> lets the U2F and the TOTP goroutine both read \<open>errors\<close> before
  either assigns it, and \<open>one_by_one\<close> runs each goroutine to its end before the next.
\<close>

definition methods3 :: "string list" where
  "methods3 = [''totp'', ''u2f'', ''mobile_push'']"

definition provider_absent :: Provider where
  "provider_absent =
     \<lparr>LoadPreferred2FAMethod = (\<lambda>_. Inr ''totp''),
      LoadU2FDeviceHandle = (\<lambda>_. Inl ErrNoU2FDeviceHandle),
      LoadTOTPSecret = (\<lambda>_. Inl ErrNoTOTPSecret),
      SavePreferred2FAMethod = (\<lambda>_ _. None)\<rparr>"

definition provider_u2f_down :: Provider where
  "provider_u2f_down =
     \<lparr>LoadPreferred2FAMethod = (\<lambda>_. Inr ''u2f''),
      LoadU2FDeviceHandle = (\<lambda>_. Inl (ErrorString ''connection refused'')),
      LoadTOTPSecret = (\<lambda>_. Inr ''JBSWY3DPEHPK3PXP''),
      SavePreferred2FAMethod = (\<lambda>_ _. Some (ErrorString ''connection refused''))\<rparr>"

definition provider_both_down :: Provider where
  "provider_both_down =
     \<lparr>LoadPreferred2FAMethod = (\<lambda>_. Inr ''totp''),
      LoadU2FDeviceHandle = (\<lambda>_. Inl (ErrorString ''u2f: connection refused'')),
      LoadTOTPSecret = (\<lambda>_. Inl (ErrorString ''totp: connection refused'')),
      SavePreferred2FAMethod = (\<lambda>_ _. None)\<rparr>"

definition provider_unset :: Provider where
  "provider_unset =
     \<lparr>LoadPreferred2FAMethod = (\<lambda>_. Inr []),
      LoadU2FDeviceHandle = (\<lambda>_. Inr (''handle'', ''key'')),
      LoadTOTPSecret = (\<lambda>_. Inl ErrNoTOTPSecret),
      SavePreferred2FAMethod = (\<lambda>_ _. None)\<rparr>"

definition ctx_john :: AutheliaCtx where
  "ctx_john =
     \<lparr>Username = ''john'', StorageProvider = provider_u2f_down,
      ParseBody = Inr (MethodBody ''u2f''), Logger = [], Response = NoResponse, Saved = []\<rparr>"

definition round_robin :: "task list" where
  "round_robin =
     [MethodTask, U2FTask, TOTPTask, MethodTask, U2FTask, TOTPTask, MethodTask, U2FTask, TOTPTask]"

definition racing :: "task list" where
  "racing = [MethodTask, U2FTask, TOTPTask, U2FTask, TOTPTask, U2FTask, TOTPTask]"

definition one_by_one :: "task list" where
  "one_by_one = [MethodTask, U2FTask, U2FTask, U2FTask, TOTPTask, TOTPTask, TOTPTask]"

text \<open>
  For the key manager: a key, a parser that knows one PEM text and a thumbprint that
  tells that key from others.
\<close>

definition key_a :: rsa_PrivateKey where
  "key_a = \<lparr>PublicKey = \<lparr>modulus = 3233, exponent = 17\<rparr>, private_exponent = 2753\<rparr>"

definition parse_a :: "string \<Rightarrow> error + rsa_PrivateKey" where
  "parse_a data = (if data = ''PEM of key a'' then Inr key_a else Inl (ErrorString ''invalid key''))"

definition thumbprint_a :: "JSONWebKey \<Rightarrow> error + string" where
  "thumbprint_a wk = (if modulus (Key wk) = 3233 then Inr ''thumbprint a'' else Inr ''another'')"

text \<open>
  For the access control engine: patterns that match by equality, a domain pattern
  \<open>*.d\<close> also matching every host that ends in \<open>.d\<close>; a rule for all of a domain listed
  before a rule for one host and one user of it; and a request both match.
\<close>

definition matchers_eq :: Matchers where
  "matchers_eq =
     \<lparr>domain_match = (\<lambda>p h. p = h \<or>
         (take 2 p = ''*.'' \<and> drop (length h - length (drop 1 p)) h = drop 1 p)),
      resource_match = (\<lambda>p path. p = path),
      network_match = (\<lambda>c a. c = a)\<rparr>"

definition rule_wide :: Rule where
  "rule_wide =
     \<lparr>domain = ''*.example.com'', resources = [], subject = any_subject, networks = [],
      methods = [], policy = one_factor\<rparr>"

definition rule_narrow :: Rule where
  "rule_narrow =
     \<lparr>domain = ''secure.example.com'', resources = [''/admin''], subject = user_subject ''john'',
      networks = [], methods = [''GET''], policy = two_factor\<rparr>"

definition request_john :: Request where
  "request_john =
     \<lparr>subject_name = ''john'', subject_groups = [''admins''], host = ''secure.example.com'',
      resourcePath = ''/admin'', network = ''192.168.1.10'', http_method = ''GET''\<rparr>"

section \<open>The interleaving keeps its invariants\<close>

lemmas goroutine_defs = step_def method_goroutine_def u2f_goroutine_def totp_goroutine_def
  return_def panic_def read_errors_def wg_Done_def

lemmas failure_defs = method_failure_def u2f_failure_def totp_failure_def

lemma step_other: "t' \<noteq> t \<Longrightarrow> pc (step pm sp u t s) t' = pc s t'"
  by (cases t; cases "pc s t")
     (simp_all add: goroutine_defs split: sum.splits list.splits)

lemma pc_ok_step_self:
  "pc_ok (failure sp u t) (pc s t) \<Longrightarrow> pc_ok (failure sp u t) (pc (step pm sp u t s) t)"
  by (cases t; cases "pc s t")
     (simp_all add: goroutine_defs failure_defs split: sum.splits list.splits)

lemma pc_ok_step:
  "pc_ok (failure sp u t') (pc s t') \<Longrightarrow> pc_ok (failure sp u t') (pc (step pm sp u t s) t')"
  by (cases "t' = t") (simp_all add: pc_ok_step_self step_other)

lemma pcs_ok_step: "pcs_ok sp u s \<Longrightarrow> pcs_ok sp u (step pm sp u t s)"
  using pc_ok_step [of sp u MethodTask s pm t] pc_ok_step [of sp u U2FTask s pm t]
    pc_ok_step [of sp u TOTPTask s pm t]
  by (simp add: pcs_ok_def)

lemma wg_ok_step: "wg_ok s \<Longrightarrow> wg_ok (step pm sp u t s)"
  unfolding wg_ok_def
  by (cases t; cases "pc s t")
     (simp_all add: goroutine_defs split: sum.splits list.splits)

lemma errors_ok_step:
  "pcs_ok sp u s \<Longrightarrow> errors_ok sp u s \<Longrightarrow> errors_ok sp u (step pm sp u t s)"
  unfolding errors_ok_def pcs_ok_def
  by (cases t; cases "pc s t")
     (simp_all add: goroutine_defs failure_defs split: sum.splits list.splits)

lemma errors_sub_step:
  "pcs_ok sp u s \<Longrightarrow> errors_sub sp u s \<Longrightarrow> errors_sub sp u (step pm sp u t s)"
  unfolding errors_sub_def pcs_ok_def failures_def
  by (cases t; cases "pc s t")
     (simp_all add: goroutine_defs split: sum.splits list.splits)

lemma logger_ok_step:
  "pcs_ok sp u s \<Longrightarrow> logger_ok sp u s \<Longrightarrow> logger_ok sp u (step pm sp u t s)"
  unfolding logger_ok_def pcs_ok_def
  by (cases t; cases "pc s t")
     (auto simp add: goroutine_defs failure_defs split: sum.splits list.splits)

lemma preferences_ok_step:
  "pcs_ok sp u s \<Longrightarrow> preferences_ok pm sp u p0 s \<Longrightarrow>
   preferences_ok pm sp u p0 (step pm sp u t s)"
  unfolding preferences_ok_def pcs_ok_def
  by (cases t; cases "pc s t")
     (auto simp add: goroutine_defs failure_defs chosen_method_def
        split: sum.splits list.splits if_splits)

lemma panic_ok_step: "panic_ok pm sp u s \<Longrightarrow> panic_ok pm sp u (step pm sp u t s)"
  unfolding panic_ok_def panicked_def may_panic_def
  by (cases t; cases "pc s t")
     (auto simp add: goroutine_defs split: sum.splits list.splits if_splits)

lemma inv_init: "inv pm sp u p0 (init p0)"
  by (simp add: inv_def init_def pcs_ok_def wg_ok_def errors_ok_def errors_sub_def
      logger_ok_def preferences_ok_def panic_ok_def panicked_def)

lemma inv_step: "inv pm sp u p0 s \<Longrightarrow> inv pm sp u p0 (step pm sp u t s)"
  unfolding inv_def
  by (simp add: pcs_ok_step wg_ok_step errors_ok_step errors_sub_step logger_ok_step
      preferences_ok_step panic_ok_step)

lemma inv_run: "inv pm sp u p0 s \<Longrightarrow> inv pm sp u p0 (run pm sp u sched s)"
  by (induction sched arbitrary: s) (simp_all add: inv_step)

section \<open>What a call of loadInfo that returns has done\<close>

lemma pending_nonneg: "0 \<le> pending c"
  by (cases c) simp_all

lemma pending_zero: "(pending c = 0) = (c = Done \<or> c = Panicked)"
  by (cases c) simp_all

lemma wg_zero:
  assumes "wg_ok s" and "wg s = 0" and "\<not> panicked s"
  shows "pc s MethodTask = Done \<and> pc s U2FTask = Done \<and> pc s TOTPTask = Done"
proof -
  have "pending (pc s MethodTask) + pending (pc s U2FTask) + pending (pc s TOTPTask) = 0"
    using assms(1,2) by (simp add: wg_ok_def)
  moreover have "0 \<le> pending (pc s MethodTask)" "0 \<le> pending (pc s U2FTask)"
    "0 \<le> pending (pc s TOTPTask)"
    by (rule pending_nonneg)+
  ultimately have "pending (pc s MethodTask) = 0 \<and> pending (pc s U2FTask) = 0 \<and>
      pending (pc s TOTPTask) = 0"
    by linarith
  with assms(3) show ?thesis
    by (auto simp: pending_zero panicked_def)
qed

lemma loadInfo_SomeD:
  assumes "loadInfo pm u sp p0 sched = Some (p, errs, lg)"
  defines "s \<equiv> run pm sp u sched (init p0)"
  shows "pc s MethodTask = Done \<and> pc s U2FTask = Done \<and> pc s TOTPTask = Done"
    and "p = preferences s" and "errs = errors s" and "lg = logger s"
    and "inv pm sp u p0 s"
proof -
  have r: "\<not> panicked s" "wg s = 0" "p = preferences s" "errs = errors s" "lg = logger s"
    using assms by (auto simp: loadInfo_def Let_def split: if_splits)
  have i: "inv pm sp u p0 s"
    unfolding s_def by (rule inv_run [OF inv_init])
  then have "wg_ok s"
    by (simp add: inv_def)
  from wg_zero [OF this r(2) r(1)] r i
  show "pc s MethodTask = Done \<and> pc s U2FTask = Done \<and> pc s TOTPTask = Done"
    and "p = preferences s" and "errs = errors s" and "lg = logger s"
    and "inv pm sp u p0 s"
    by simp_all
qed

lemma loadInfo_result:
  assumes "loadInfo pm u sp p0 sched = Some (p, errs, lg)"
  shows "Method p = chosen_method pm sp u (Method p0)"
    and "HasU2F p = (HasU2F p0 \<or> \<not> isl (LoadU2FDeviceHandle sp u))"
    and "HasTOTP p = (HasTOTP p0 \<or> \<not> isl (LoadTOTPSecret sp u))"
    and "(errs = []) =
         (method_failure sp u = None \<and> u2f_failure sp u = None \<and> totp_failure sp u = None)"
    and "set errs \<subseteq> failures sp u"
    and "set lg = failures sp u"
proof -
  note d = loadInfo_SomeD [OF assms]
  from d(5) d(1) d(2) show "Method p = chosen_method pm sp u (Method p0)"
    and "HasU2F p = (HasU2F p0 \<or> \<not> isl (LoadU2FDeviceHandle sp u))"
    and "HasTOTP p = (HasTOTP p0 \<or> \<not> isl (LoadTOTPSecret sp u))"
    by (simp_all add: inv_def preferences_ok_def)
  from d(5) d(1) d(3) show "(errs = []) =
      (method_failure sp u = None \<and> u2f_failure sp u = None \<and> totp_failure sp u = None)"
    by (simp add: inv_def errors_ok_def)
  from d(5) d(3) show "set errs \<subseteq> failures sp u"
    by (simp add: inv_def errors_sub_def)
  from d(5) d(1) d(4) show "set lg = failures sp u"
    by (simp add: inv_def logger_ok_def failures_def)
qed


section \<open>Every fair schedule lets loadInfo return\<close>

lemma remaining_step_self: "remaining (pc (step pm sp u t s) t) \<le> remaining (pc s t) - 1"
  by (cases t; cases "pc s t")
     (simp_all add: goroutine_defs split: sum.splits list.splits)

lemma remaining_step:
  "remaining (pc (step pm sp u t' s) t) \<le> remaining (pc s t) - (if t' = t then 1 else 0)"
  using remaining_step_self [of pm sp u t s] step_other [of t t' pm sp u s] by auto

lemma remaining_run:
  "remaining (pc (run pm sp u sched s) t) \<le> remaining (pc s t) - count_list sched t"
proof (induction sched arbitrary: s)
  case Nil
  show ?case by simp
next
  case (Cons t' sched)
  have "remaining (pc (run pm sp u (t' # sched) s) t)
      \<le> remaining (pc (step pm sp u t' s) t) - count_list sched t"
    using Cons.IH by simp
  also have "\<dots> \<le> (remaining (pc s t) - (if t' = t then 1 else 0)) - count_list sched t"
    using remaining_step [of pm sp u t' s t] by (rule diff_le_mono)
  also have "\<dots> = remaining (pc s t) - count_list (t' # sched) t"
    by simp
  finally show ?case .
qed

lemma remaining_zero: "(remaining c = 0) = (c = Done \<or> c = Panicked)"
  by (cases c) simp_all

lemma fair_finished:
  assumes "fair sched"
  shows "remaining (pc (run pm sp u sched (init p0)) t) = 0"
proof -
  have "3 \<le> count_list sched t"
    using assms by (cases t) (simp_all add: fair_def)
  moreover have "remaining (pc (init p0) t) = 3"
    by (simp add: init_def)
  ultimately show ?thesis
    using remaining_run [of pm sp u sched "init p0" t] by simp
qed

lemma loadInfo_fair:
  assumes "fair sched" and "\<not> may_panic pm sp u"
  shows "\<exists>p errs lg. loadInfo pm u sp p0 sched = Some (p, errs, lg)"
proof -
  define s where "s = run pm sp u sched (init p0)"
  have i: "inv pm sp u p0 s"
    unfolding s_def by (rule inv_run [OF inv_init])
  then have np: "\<not> panicked s"
    using assms(2) by (auto simp: inv_def panic_ok_def)
  have "\<And>t. pc s t = Done \<or> pc s t = Panicked"
    using fair_finished [OF assms(1)] by (simp add: s_def remaining_zero)
  then have "pending (pc s MethodTask) = 0" "pending (pc s U2FTask) = 0"
    "pending (pc s TOTPTask) = 0"
    by (simp_all add: pending_zero)
  with i have "wg s = 0"
    by (simp add: inv_def wg_ok_def)
  with np show ?thesis
    by (simp add: loadInfo_def s_def [symmetric])
qed

text \<open>The equations that evaluate a call of \<open>loadInfo\<close> on given inputs.\<close>

lemmas loadInfo_eval = loadInfo_def init_def panicked_def goroutine_defs round_robin_def
  UserPreferences_zero_def methods3_def

section \<open>The claims about loadInfo\<close>

text \<open>
  Claim C5. In \<open>loadInfo\<close>, each of the three goroutines writes only its own field of the
  shared \<open>UserPreferences\<close>: whatever the state, a step of the preferred-method goroutine
  leaves \<open>HasU2F\<close> and \<open>HasTOTP\<close> as they were, a step of the U2F goroutine leaves
  \<open>Method\<close> and \<open>HasTOTP\<close>, and a step of the TOTP goroutine leaves \<open>Method\<close> and
  \<open>HasU2F\<close>; so no field is written by two goroutines.
\<close>

theorem goroutines_write_disjoint_fields:
  "HasU2F (preferences (step pm sp u MethodTask s)) = HasU2F (preferences s) \<and>
   HasTOTP (preferences (step pm sp u MethodTask s)) = HasTOTP (preferences s) \<and>
   Method (preferences (step pm sp u U2FTask s)) = Method (preferences s) \<and>
   HasTOTP (preferences (step pm sp u U2FTask s)) = HasTOTP (preferences s) \<and>
   Method (preferences (step pm sp u TOTPTask s)) = Method (preferences s) \<and>
   HasU2F (preferences (step pm sp u TOTPTask s)) = HasU2F (preferences s)"
proof -
  have m: "HasU2F (preferences (step pm sp u MethodTask s)) = HasU2F (preferences s) \<and>
      HasTOTP (preferences (step pm sp u MethodTask s)) = HasTOTP (preferences s)"
    by (cases "pc s MethodTask")
       (simp_all add: goroutine_defs split: sum.splits list.splits)
  have f: "Method (preferences (step pm sp u U2FTask s)) = Method (preferences s) \<and>
      HasTOTP (preferences (step pm sp u U2FTask s)) = HasTOTP (preferences s)"
    by (cases "pc s U2FTask")
       (simp_all add: goroutine_defs split: sum.splits list.splits)
  have t: "Method (preferences (step pm sp u TOTPTask s)) = Method (preferences s) \<and>
      HasU2F (preferences (step pm sp u TOTPTask s)) = HasU2F (preferences s)"
    by (cases "pc s TOTPTask")
       (simp_all add: goroutine_defs split: sum.splits list.splits)
  from m f t show ?thesis by simp
qed



text \<open>
  Claim C2. For every user name, \<open>loadInfo\<close> returns to its caller only after all three
  goroutines have finished (and under every fair schedule without a panic it does
  return), and the error list it returns is empty exactly when none of the three
  lookups failed with an error other than its not-found sentinel; so an empty list
  means that the preferred method was read, and that each of the other two lookups
  either found its entry or reported it absent.
\<close>

theorem loadInfo_full_barrier:
  "(fair sched \<and> \<not> may_panic pm sp u \<longrightarrow>
      (\<exists>p errs lg. loadInfo pm u sp p0 sched = Some (p, errs, lg))) \<and>
   (\<forall>p errs lg. loadInfo pm u sp p0 sched = Some (p, errs, lg) \<longrightarrow>
      pc (run pm sp u sched (init p0)) MethodTask = Done \<and>
      pc (run pm sp u sched (init p0)) U2FTask = Done \<and>
      pc (run pm sp u sched (init p0)) TOTPTask = Done \<and>
      ((errs = []) =
         (method_failure sp u = None \<and> u2f_failure sp u = None \<and> totp_failure sp u = None)) \<and>
      (errs = [] \<longrightarrow>
         (\<exists>m. LoadPreferred2FAMethod sp u = Inr m) \<and>
         (LoadU2FDeviceHandle sp u = Inl ErrNoU2FDeviceHandle \<or>
            (\<exists>h. LoadU2FDeviceHandle sp u = Inr h)) \<and>
         (LoadTOTPSecret sp u = Inl ErrNoTOTPSecret \<or> (\<exists>x. LoadTOTPSecret sp u = Inr x))))"
proof -
  have read: "(\<exists>m. LoadPreferred2FAMethod sp u = Inr m) \<and>
      (LoadU2FDeviceHandle sp u = Inl ErrNoU2FDeviceHandle \<or>
         (\<exists>h. LoadU2FDeviceHandle sp u = Inr h)) \<and>
      (LoadTOTPSecret sp u = Inl ErrNoTOTPSecret \<or> (\<exists>x. LoadTOTPSecret sp u = Inr x))"
    if "method_failure sp u = None \<and> u2f_failure sp u = None \<and> totp_failure sp u = None"
    using that by (auto simp: failure_defs split: sum.splits if_splits)
  have "pc (run pm sp u sched (init p0)) MethodTask = Done \<and>
      pc (run pm sp u sched (init p0)) U2FTask = Done \<and>
      pc (run pm sp u sched (init p0)) TOTPTask = Done \<and>
      ((errs = []) =
         (method_failure sp u = None \<and> u2f_failure sp u = None \<and> totp_failure sp u = None))"
    if "loadInfo pm u sp p0 sched = Some (p, errs, lg)" for p errs lg
    using loadInfo_SomeD(1) [OF that] loadInfo_result(4) [OF that] by simp
  with read loadInfo_fair [of sched pm sp u p0] show ?thesis
    by blast
qed

theorem loadInfo_full_barrier_witness:
  "fair round_robin \<and> \<not> may_panic methods3 provider_absent ''john'' \<and>
   loadInfo methods3 ''john'' provider_absent UserPreferences_zero round_robin =
     Some (\<lparr>Method = ''totp'', HasU2F = False, HasTOTP = False\<rparr>, [], []) \<and>
   pc (run methods3 provider_absent ''john'' round_robin (init UserPreferences_zero)) U2FTask = Done \<and>
   u2f_failure provider_absent ''john'' = None \<and>
   LoadU2FDeviceHandle provider_absent ''john'' = Inl ErrNoU2FDeviceHandle"
proof -
  have r: "loadInfo methods3 ''john'' provider_absent UserPreferences_zero round_robin =
      Some (\<lparr>Method = ''totp'', HasU2F = False, HasTOTP = False\<rparr>, [], [])"
    by (simp add: loadInfo_eval provider_absent_def)
  have f: "fair round_robin \<and> \<not> may_panic methods3 provider_absent ''john''"
    by (simp add: fair_def round_robin_def may_panic_def provider_absent_def)
  have l: "LoadU2FDeviceHandle provider_absent ''john'' = Inl ErrNoU2FDeviceHandle"
    by (simp add: provider_absent_def)
  from loadInfo_full_barrier
    [of round_robin methods3 provider_absent "''john''" UserPreferences_zero] r f l
  show ?thesis
    by simp
qed

text \<open>
  Claim C3. For every user, when the U2F lookup fails with an error other than
  \<open>ErrNoU2FDeviceHandle\<close> while the preferred-method and TOTP lookups succeed, any result
  of \<open>loadInfo\<close> has a non-empty error list, which holds that error and no other, and
  yet \<open>Method\<close> and \<open>HasTOTP\<close> are set from the two lookups that succeeded (\<open>HasU2F\<close> is
  left as it was); \<open>UserInfoGet\<close>, which returns under every fair schedule, answers
  with \<open>ctx.Error\<close> on the error "Unable to load user information" and the message
  \<open>operationFailedMessage\<close>.
\<close>

theorem loadInfo_u2f_failure_keeps_other_fields:
  assumes "LoadPreferred2FAMethod (StorageProvider ctx) (Username ctx) = Inr m"
    and "m \<noteq> [] \<or> pm \<noteq> []"
    and "LoadU2FDeviceHandle (StorageProvider ctx) (Username ctx) = Inl e"
    and "e \<noteq> ErrNoU2FDeviceHandle"
    and "LoadTOTPSecret (StorageProvider ctx) (Username ctx) = Inr secret"
  shows "(fair sched \<longrightarrow> (\<exists>c. UserInfoGet pm msg ctx sched = Some c)) \<and>
    (\<forall>p errs lg.
       loadInfo pm (Username ctx) (StorageProvider ctx) p0 sched = Some (p, errs, lg) \<longrightarrow>
         errs \<noteq> [] \<and> set errs = {e} \<and> Method p = (if m = [] then hd pm else m) \<and>
         HasTOTP p \<and> HasU2F p = HasU2F p0) \<and>
    (\<forall>c. UserInfoGet pm msg ctx sched = Some c \<longrightarrow>
       Response c = CtxError (ErrorString ''Unable to load user information'') msg)"
proof -
  let ?sp = "StorageProvider ctx" and ?u = "Username ctx"
  have fs: "method_failure ?sp ?u = None" "u2f_failure ?sp ?u = Some e" "totp_failure ?sp ?u = None"
    using assms by (simp_all add: failure_defs)
  then have F: "failures ?sp ?u = {e}"
    by (simp add: failures_def)
  have np: "\<not> may_panic pm ?sp ?u"
    using assms(1,2) by (auto simp: may_panic_def)
  have res: "errs \<noteq> [] \<and> set errs = {e} \<and> Method p = (if m = [] then hd pm else m) \<and>
      HasTOTP p \<and> HasU2F p = HasU2F q"
    if "loadInfo pm ?u ?sp q sched = Some (p, errs, lg)" for p errs lg q
  proof -
    note r = loadInfo_result [OF that]
    have ne: "errs \<noteq> []"
      using r(4) fs by simp
    then have "set errs \<noteq> {}"
      by simp
    with r(5) F have "set errs = {e}"
      by (simp add: subset_singleton_iff)
    moreover have "Method p = (if m = [] then hd pm else m)"
      using r(1) assms(1,2) by (cases pm) (auto simp: chosen_method_def)
    moreover have "HasTOTP p" "HasU2F p = HasU2F q"
      using r(2,3) assms(3,5) by simp_all
    ultimately show ?thesis
      using ne by simp
  qed
  have resp: "Response c = CtxError (ErrorString ''Unable to load user information'') msg"
    if c: "UserInfoGet pm msg ctx sched = Some c" for c
  proof -
    from c obtain p errs lg
      where l: "loadInfo pm ?u ?sp UserPreferences_zero sched = Some (p, errs, lg)"
      by (auto simp: UserInfoGet_def split: option.splits)
    from res [OF l] have "errs \<noteq> []"
      by simp
    with c l show ?thesis
      by (auto simp: UserInfoGet_def ctx_Error_def Let_def)
  qed
  have ret: "\<exists>c. UserInfoGet pm msg ctx sched = Some c" if "fair sched"
  proof -
    from loadInfo_fair [OF that np]
    obtain p errs lg where "loadInfo pm ?u ?sp UserPreferences_zero sched = Some (p, errs, lg)"
      by blast
    then show ?thesis
      by (simp add: UserInfoGet_def Let_def)
  qed
  from res resp ret show ?thesis
    by blast
qed

theorem loadInfo_u2f_failure_keeps_other_fields_witness:
  "LoadPreferred2FAMethod (StorageProvider ctx_john) (Username ctx_john) = Inr ''u2f'' \<and>
   LoadU2FDeviceHandle (StorageProvider ctx_john) (Username ctx_john)
     = Inl (ErrorString ''connection refused'') \<and>
   LoadTOTPSecret (StorageProvider ctx_john) (Username ctx_john) = Inr ''JBSWY3DPEHPK3PXP'' \<and>
   fair round_robin \<and>
   loadInfo methods3 (Username ctx_john) (StorageProvider ctx_john) UserPreferences_zero round_robin =
     Some (\<lparr>Method = ''u2f'', HasU2F = False, HasTOTP = True\<rparr>,
           [ErrorString ''connection refused''], [ErrorString ''connection refused'']) \<and>
   (\<exists>c. UserInfoGet methods3 ''Operation failed.'' ctx_john round_robin = Some c \<and>
        Response c =
          CtxError (ErrorString ''Unable to load user information'') ''Operation failed.'')"
proof -
  have h: "LoadPreferred2FAMethod (StorageProvider ctx_john) (Username ctx_john) = Inr ''u2f''"
    "''u2f'' \<noteq> [] \<or> methods3 \<noteq> []"
    "LoadU2FDeviceHandle (StorageProvider ctx_john) (Username ctx_john)
       = Inl (ErrorString ''connection refused'')"
    "ErrorString ''connection refused'' \<noteq> ErrNoU2FDeviceHandle"
    "LoadTOTPSecret (StorageProvider ctx_john) (Username ctx_john) = Inr ''JBSWY3DPEHPK3PXP''"
    by (simp_all add: ctx_john_def provider_u2f_down_def)
  have f: "fair round_robin"
    by (simp add: fair_def round_robin_def)
  have r: "loadInfo methods3 (Username ctx_john) (StorageProvider ctx_john) UserPreferences_zero
        round_robin =
      Some (\<lparr>Method = ''u2f'', HasU2F = False, HasTOTP = True\<rparr>,
            [ErrorString ''connection refused''], [ErrorString ''connection refused''])"
    by (simp add: loadInfo_eval ctx_john_def provider_u2f_down_def)
  from loadInfo_u2f_failure_keeps_other_fields [OF h, of round_robin "''Operation failed.''"] h f r
  show ?thesis
    by blast
qed

text \<open>
  Claim C9. For every user, when \<open>LoadPreferred2FAMethod\<close> succeeds with the empty string
  and \<open>PossibleMethods\<close> has a first entry, \<open>loadInfo\<close> (which returns under every fair
  schedule) sets \<open>Method\<close> to that first entry, and the goroutine appends no error: its
  one step leaves \<open>errors\<close> as it is and ends the goroutine, and the list returned
  holds only failures of the other two lookups.
\<close>

theorem loadInfo_default_method:
  assumes "LoadPreferred2FAMethod sp u = Inr []" and "pm = m # ms"
  shows "(fair sched \<longrightarrow> (\<exists>p errs lg. loadInfo pm u sp p0 sched = Some (p, errs, lg))) \<and>
    (\<forall>p errs lg. loadInfo pm u sp p0 sched = Some (p, errs, lg) \<longrightarrow>
       Method p = m \<and> set errs \<subseteq> set_option (u2f_failure sp u) \<union> set_option (totp_failure sp u)) \<and>
    (pc s MethodTask = Start \<longrightarrow>
       errors (step pm sp u MethodTask s) = errors s \<and>
       Method (preferences (step pm sp u MethodTask s)) = m \<and>
       pc (step pm sp u MethodTask s) MethodTask = Done)"
proof -
  have np: "\<not> may_panic pm sp u"
    using assms(2) by (simp add: may_panic_def)
  have mf: "method_failure sp u = None"
    using assms(1) by (simp add: method_failure_def)
  have res: "Method p = m \<and>
      set errs \<subseteq> set_option (u2f_failure sp u) \<union> set_option (totp_failure sp u)"
    if "loadInfo pm u sp p0 sched = Some (p, errs, lg)" for p errs lg
    using loadInfo_result(1,5) [OF that] assms mf
    by (simp add: chosen_method_def failures_def)
  have one: "errors (step pm sp u MethodTask s) = errors s \<and>
      Method (preferences (step pm sp u MethodTask s)) = m \<and>
      pc (step pm sp u MethodTask s) MethodTask = Done"
    if "pc s MethodTask = Start"
    using that assms by (simp add: goroutine_defs)
  from res one loadInfo_fair [OF _ np, of sched p0] show ?thesis
    by blast
qed

theorem loadInfo_default_method_witness:
  "LoadPreferred2FAMethod provider_unset ''john'' = Inr [] \<and>
   methods3 = ''totp'' # [''u2f'', ''mobile_push''] \<and>
   fair round_robin \<and>
   loadInfo methods3 ''john'' provider_unset UserPreferences_zero round_robin =
     Some (\<lparr>Method = ''totp'', HasU2F = True, HasTOTP = False\<rparr>, [], []) \<and>
   pc (init UserPreferences_zero) MethodTask = Start \<and>
   errors (step methods3 provider_unset ''john'' MethodTask (init UserPreferences_zero)) = []"
proof -
  have h: "LoadPreferred2FAMethod provider_unset ''john'' = Inr []"
    "methods3 = ''totp'' # [''u2f'', ''mobile_push'']"
    by (simp_all add: provider_unset_def methods3_def)
  have f: "fair round_robin"
    by (simp add: fair_def round_robin_def)
  have r: "loadInfo methods3 ''john'' provider_unset UserPreferences_zero round_robin =
      Some (\<lparr>Method = ''totp'', HasU2F = True, HasTOTP = False\<rparr>, [], [])"
    by (simp add: loadInfo_eval provider_unset_def)
  have i: "pc (init UserPreferences_zero) MethodTask = Start"
    "errors (init UserPreferences_zero) = []"
    by (simp_all add: init_def)
  from loadInfo_default_method
    [OF h, of round_robin UserPreferences_zero "init UserPreferences_zero"] h f r i
  show ?thesis
    by simp
qed

text \<open>
  Claim C4, where the code departs from it. The claim has every error of a failing
  lookup present in the list that \<open>loadInfo\<close> returns. With the U2F and the TOTP lookup
  both failing, and each goroutine reading \<open>errors\<close> before the other assigns it, the
  list returned holds the TOTP error alone: the U2F error, which was logged, is lost.
  When the goroutines run one after the other, both are there.
\<close>

theorem loadInfo_loses_error_when_racing:
  "loadInfo methods3 ''john'' provider_both_down UserPreferences_zero racing =
     Some (\<lparr>Method = ''totp'', HasU2F = False, HasTOTP = False\<rparr>,
           [ErrorString ''totp: connection refused''],
           [ErrorString ''u2f: connection refused'', ErrorString ''totp: connection refused'']) \<and>
   loadInfo methods3 ''john'' provider_both_down UserPreferences_zero one_by_one =
     Some (\<lparr>Method = ''totp'', HasU2F = False, HasTOTP = False\<rparr>,
           [ErrorString ''u2f: connection refused'', ErrorString ''totp: connection refused''],
           [ErrorString ''u2f: connection refused'', ErrorString ''totp: connection refused''])"
  by (simp add: loadInfo_eval racing_def one_by_one_def provider_both_down_def)

section \<open>The claims about the handlers\<close>

text \<open>
  Claim C7. For every session user, \<open>UserInfoGet\<close> (which answers under every fair
  schedule without a panic) sets the JSON body to the preferences, that is \<open>Method\<close>,
  \<open>HasTOTP\<close> and \<open>HasU2F\<close>, when \<open>loadInfo\<close> returns an empty error list, and whenever the
  list is not empty it calls \<open>ctx.Error\<close> on the one error "Unable to load user
  information" with \<open>operationFailedMessage\<close>, whichever lookup failed; the errors of
  the failed lookups are those that \<open>loadInfo\<close> logged.
\<close>

theorem UserInfoGet_generic_failure:
  "(fair sched \<and> \<not> may_panic pm (StorageProvider ctx) (Username ctx) \<longrightarrow>
      (\<exists>c. UserInfoGet pm msg ctx sched = Some c)) \<and>
   (\<forall>c. UserInfoGet pm msg ctx sched = Some c \<longrightarrow>
      (\<exists>p errs lg.
         loadInfo pm (Username ctx) (StorageProvider ctx) UserPreferences_zero sched
           = Some (p, errs, lg) \<and>
         (errs = [] \<longrightarrow> Response c = JSONBody p) \<and>
         (errs \<noteq> [] \<longrightarrow>
            Response c = CtxError (ErrorString ''Unable to load user information'') msg) \<and>
         Logger c = Logger ctx @ map LogError lg \<and>
         set lg = failures (StorageProvider ctx) (Username ctx)))"
proof -
  let ?sp = "StorageProvider ctx" and ?u = "Username ctx"
  have ret: "\<exists>c. UserInfoGet pm msg ctx sched = Some c"
    if "fair sched" "\<not> may_panic pm ?sp ?u"
  proof -
    from loadInfo_fair [OF that]
    obtain p errs lg where "loadInfo pm ?u ?sp UserPreferences_zero sched = Some (p, errs, lg)"
      by blast
    then show ?thesis
      by (simp add: UserInfoGet_def Let_def)
  qed
  have resp: "\<exists>p errs lg.
      loadInfo pm ?u ?sp UserPreferences_zero sched = Some (p, errs, lg) \<and>
      (errs = [] \<longrightarrow> Response c = JSONBody p) \<and>
      (errs \<noteq> [] \<longrightarrow>
         Response c = CtxError (ErrorString ''Unable to load user information'') msg) \<and>
      Logger c = Logger ctx @ map LogError lg \<and> set lg = failures ?sp ?u"
    if c: "UserInfoGet pm msg ctx sched = Some c" for c
  proof -
    from c obtain p errs lg
      where l: "loadInfo pm ?u ?sp UserPreferences_zero sched = Some (p, errs, lg)"
      by (auto simp: UserInfoGet_def split: option.splits)
    have "set lg = failures ?sp ?u"
      by (rule loadInfo_result(6) [OF l])
    moreover have "errs = [] \<longrightarrow> Response c = JSONBody p"
      using c l by (auto simp: UserInfoGet_def ctx_SetJSONBody_def Let_def)
    moreover have "errs \<noteq> [] \<longrightarrow>
        Response c = CtxError (ErrorString ''Unable to load user information'') msg"
      using c l by (auto simp: UserInfoGet_def ctx_Error_def Let_def)
    moreover have "Logger c = Logger ctx @ map LogError lg"
      using c l by (auto simp: UserInfoGet_def ctx_Error_def ctx_SetJSONBody_def Let_def
          split: if_splits)
    ultimately show ?thesis
      using l by blast
  qed
  from ret resp show ?thesis
    by blast
qed

theorem UserInfoGet_generic_failure_witness:
  "fair round_robin \<and> \<not> may_panic methods3 (StorageProvider ctx_john) (Username ctx_john) \<and>
   UserInfoGet methods3 ''Operation failed.'' ctx_john round_robin =
     Some (ctx_john\<lparr>Logger := [LogError (ErrorString ''connection refused'')],
             Response := CtxError (ErrorString ''Unable to load user information'')
               ''Operation failed.''\<rparr>) \<and>
   UserInfoGet methods3 ''Operation failed.'' (ctx_john\<lparr>StorageProvider := provider_absent\<rparr>)
       round_robin =
     Some (ctx_john\<lparr>StorageProvider := provider_absent,
             Response := JSONBody \<lparr>Method = ''totp'', HasU2F = False, HasTOTP = False\<rparr>\<rparr>) \<and>
   failures (StorageProvider ctx_john) (Username ctx_john) = {ErrorString ''connection refused''}"
proof -
  have f: "fair round_robin \<and> \<not> may_panic methods3 (StorageProvider ctx_john) (Username ctx_john)"
    by (simp add: fair_def round_robin_def may_panic_def ctx_john_def provider_u2f_down_def)
  have a: "UserInfoGet methods3 ''Operation failed.'' ctx_john round_robin =
      Some (ctx_john\<lparr>Logger := [LogError (ErrorString ''connection refused'')],
              Response := CtxError (ErrorString ''Unable to load user information'')
                ''Operation failed.''\<rparr>)"
    by (simp add: UserInfoGet_def ctx_Error_def loadInfo_eval ctx_john_def provider_u2f_down_def)
  have b: "UserInfoGet methods3 ''Operation failed.'' (ctx_john\<lparr>StorageProvider := provider_absent\<rparr>)
        round_robin =
      Some (ctx_john\<lparr>StorageProvider := provider_absent,
              Response := JSONBody \<lparr>Method = ''totp'', HasU2F = False, HasTOTP = False\<rparr>\<rparr>)"
    by (simp add: UserInfoGet_def ctx_SetJSONBody_def loadInfo_eval ctx_john_def provider_absent_def)
  have l: "loadInfo methods3 (Username ctx_john) (StorageProvider ctx_john) UserPreferences_zero
        round_robin =
      Some (\<lparr>Method = ''u2f'', HasU2F = False, HasTOTP = True\<rparr>,
            [ErrorString ''connection refused''], [ErrorString ''connection refused''])"
    by (simp add: loadInfo_eval ctx_john_def provider_u2f_down_def)
  from UserInfoGet_generic_failure [of round_robin methods3 ctx_john "''Operation failed.''"] a l
  have "failures (StorageProvider ctx_john) (Username ctx_john) = {ErrorString ''connection refused''}"
    by auto
  with f a b show ?thesis
    by simp
qed

text \<open>
  Claim C6. For every request, \<open>MethodPreferencePost\<close> calls \<open>ctx.Error\<close> and makes no call
  of \<open>SavePreferred2FAMethod\<close> when the body fails to parse (the error passed is the
  parse error) or when the method is not in \<open>PossibleMethods\<close> (the error passed names
  the method and lists the supported ones); when the method is in \<open>PossibleMethods\<close> it
  calls \<open>SavePreferred2FAMethod\<close> once, for the session user and that method, and then
  replies OK if the save succeeded and calls \<open>ctx.Error\<close> on an error that wraps the
  cause if it failed. The message passed to \<open>ctx.Error\<close> is always
  \<open>operationFailedMessage\<close>.
\<close>

theorem MethodPreferencePost_validates:
  "(\<forall>err. ParseBody ctx = Inl err \<longrightarrow>
      MethodPreferencePost pm msg ctx = ctx\<lparr>Response := CtxError err msg\<rparr>) \<and>
   (\<forall>b. ParseBody ctx = Inr b \<and> MethodBody_Method b \<notin> set pm \<longrightarrow>
      MethodPreferencePost pm msg ctx =
        ctx\<lparr>Response := CtxError
          (ErrorString (''Unknown method '' @ [CHR 0x27] @ MethodBody_Method b @ [CHR 0x27]
             @ '', it should be one of '' @ Join pm '', '')) msg\<rparr>) \<and>
   (\<forall>b. ParseBody ctx = Inr b \<and> MethodBody_Method b \<in> set pm \<longrightarrow>
      Saved (MethodPreferencePost pm msg ctx) = Saved ctx @ [(Username ctx, MethodBody_Method b)] \<and>
      Response (MethodPreferencePost pm msg ctx) =
        (case SavePreferred2FAMethod (StorageProvider ctx) (Username ctx) (MethodBody_Method b) of
           None \<Rightarrow> ReplyOK
         | Some err \<Rightarrow>
             CtxError (Errorf ''Unable to save new preferred 2FA method: '' err) msg))"
  by (auto simp: MethodPreferencePost_def IsStringInSlice_def ctx_Error_def ctx_ReplyOK_def
      Let_def split: option.splits)

theorem MethodPreferencePost_validates_witness:
  "MethodPreferencePost methods3 ''Operation failed.''
       (ctx_john\<lparr>ParseBody := Inl (ErrorString ''unexpected end of JSON input'')\<rparr>) =
     ctx_john\<lparr>ParseBody := Inl (ErrorString ''unexpected end of JSON input''),
       Response := CtxError (ErrorString ''unexpected end of JSON input'') ''Operation failed.''\<rparr> \<and>
   Response (MethodPreferencePost methods3 ''Operation failed.''
       (ctx_john\<lparr>ParseBody := Inr (MethodBody ''sms'')\<rparr>)) =
     CtxError (ErrorString (''Unknown method '' @ [CHR 0x27] @ ''sms'' @ [CHR 0x27]
         @ '', it should be one of totp, u2f, mobile_push'')) ''Operation failed.'' \<and>
   Saved (MethodPreferencePost methods3 ''Operation failed.''
       (ctx_john\<lparr>ParseBody := Inr (MethodBody ''sms'')\<rparr>)) = [] \<and>
   Saved (MethodPreferencePost methods3 ''Operation failed.'' ctx_john) = [(''john'', ''u2f'')] \<and>
   Response (MethodPreferencePost methods3 ''Operation failed.'' ctx_john) =
     CtxError (Errorf ''Unable to save new preferred 2FA method: ''
       (ErrorString ''connection refused'')) ''Operation failed.'' \<and>
   Response (MethodPreferencePost methods3 ''Operation failed.''
       (ctx_john\<lparr>StorageProvider := provider_absent\<rparr>)) = ReplyOK"
proof -
  let ?bad = "ctx_john\<lparr>ParseBody := Inl (ErrorString ''unexpected end of JSON input'')\<rparr>"
  let ?sms = "ctx_john\<lparr>ParseBody := Inr (MethodBody ''sms'')\<rparr>"
  let ?ok = "ctx_john\<lparr>StorageProvider := provider_absent\<rparr>"
  have a: "MethodPreferencePost methods3 ''Operation failed.'' ?bad =
      ?bad\<lparr>Response := CtxError (ErrorString ''unexpected end of JSON input'') ''Operation failed.''\<rparr>"
    using MethodPreferencePost_validates [of ?bad methods3 "''Operation failed.''"]
    by simp
  have b: "MethodPreferencePost methods3 ''Operation failed.'' ?sms =
      ?sms\<lparr>Response := CtxError
        (ErrorString (''Unknown method '' @ [CHR 0x27] @ ''sms'' @ [CHR 0x27]
           @ '', it should be one of '' @ Join methods3 '', '')) ''Operation failed.''\<rparr>"
    using MethodPreferencePost_validates [of ?sms methods3 "''Operation failed.''"]
    by (simp add: methods3_def)
  have c: "Saved (MethodPreferencePost methods3 ''Operation failed.'' ctx_john) =
        Saved ctx_john @ [(Username ctx_john, ''u2f'')] \<and>
      Response (MethodPreferencePost methods3 ''Operation failed.'' ctx_john) =
        (case SavePreferred2FAMethod (StorageProvider ctx_john) (Username ctx_john) ''u2f'' of
           None \<Rightarrow> ReplyOK
         | Some err \<Rightarrow>
             CtxError (Errorf ''Unable to save new preferred 2FA method: '' err)
               ''Operation failed.'')"
    using MethodPreferencePost_validates [of ctx_john methods3 "''Operation failed.''"]
    by (simp add: methods3_def ctx_john_def)
  have d: "Response (MethodPreferencePost methods3 ''Operation failed.'' ?ok) =
        (case SavePreferred2FAMethod (StorageProvider ?ok) (Username ?ok) ''u2f'' of
           None \<Rightarrow> ReplyOK
         | Some err \<Rightarrow>
             CtxError (Errorf ''Unable to save new preferred 2FA method: '' err)
               ''Operation failed.'')"
    using MethodPreferencePost_validates [of ?ok methods3 "''Operation failed.''"]
    by (simp add: methods3_def ctx_john_def)
  from a b c d show ?thesis
    by (simp add: methods3_def ctx_john_def provider_u2f_down_def provider_absent_def)
qed

section \<open>The key manager\<close>

lemma AddActiveKey_activeKeyID:
  "activeKeyID (fst (AddActiveKey Thumbprint m key)) = activeKeyID m"
  by (cases "Thumbprint \<lparr>Key = PublicKey key, KeyID = [], Algorithm = ''RS256'', Use = ''sig''\<rparr>")
     (simp_all add: AddActiveKey_def Let_def)

lemma AddActiveKey_adds:
  assumes "Thumbprint \<lparr>Key = PublicKey key, KeyID = [], Algorithm = ''RS256'', Use = ''sig''\<rparr>
      = Inr strKeyID"
    and "keys m strKeyID = None"
  shows "keys (fst (AddActiveKey Thumbprint m key)) strKeyID = Some key"
  using assms by (simp add: AddActiveKey_def Let_def)

lemma AddActiveKey_duplicate:
  assumes "Thumbprint \<lparr>Key = PublicKey key, KeyID = [], Algorithm = ''RS256'', Use = ''sig''\<rparr>
      = Inr strKeyID"
    and "keys m strKeyID = Some key'"
  shows "AddActiveKey Thumbprint m key =
    (m, Inl (ErrorString (''key id '' @ strKeyID @ '' already exists'')))"
  using assms by (simp add: AddActiveKey_def Let_def)

text \<open>
  Claim C10, where the code departs from it. The claim has \<open>GetActiveKeyID\<close> return the
  thumbprint of the key that \<open>AddActiveKey\<close> added, and \<open>GetActivePrivateKey\<close> and
  \<open>GetActiveKey\<close> return that key. \<open>AddActiveKey\<close> never assigns \<open>activeKeyID\<close>: the active
  key ID after the call is the one before it. So the manager that \<open>NewKeyManager\<close>
  makes for a key holds the key under its thumbprint, and yet its active key ID is
  the empty string and both getters of the active key fail.
\<close>

theorem AddActiveKey_never_sets_active_key:
  "GetActiveKeyID (fst (AddActiveKey Thumbprint m key)) = GetActiveKeyID m \<and>
   (\<exists>manager. NewKeyManager parse_a thumbprint_a ''PEM of key a'' = Inr manager \<and>
      keys manager ''thumbprint a'' = Some key_a \<and>
      map KeyID (Keys (keySet manager)) = [''thumbprint a''] \<and>
      GetActiveKeyID manager = [] \<and>
      GetActivePrivateKey manager = Inl (ErrorString ''failed to retrieve active key'') \<and>
      GetActiveKey manager = Inl (ErrorString ''failed to retrieve active key''))"
proof
  show "GetActiveKeyID (fst (AddActiveKey Thumbprint m key)) = GetActiveKeyID m"
    by (simp add: GetActiveKeyID_def AddActiveKey_activeKeyID)
  show "\<exists>manager. NewKeyManager parse_a thumbprint_a ''PEM of key a'' = Inr manager \<and>
      keys manager ''thumbprint a'' = Some key_a \<and>
      map KeyID (Keys (keySet manager)) = [''thumbprint a''] \<and>
      GetActiveKeyID manager = [] \<and>
      GetActivePrivateKey manager = Inl (ErrorString ''failed to retrieve active key'') \<and>
      GetActiveKey manager = Inl (ErrorString ''failed to retrieve active key'')"
    by (simp add: GetActiveKeyID_def NewKeyManager_def AddActiveKeyData_def AddActiveKey_def
        NewRS256JWTStrategy_def SetKey_def GetActivePrivateKey_def GetActiveKey_def
        parse_a_def thumbprint_a_def key_a_def Let_def)
qed

section \<open>The access control engine returns the first match\<close>

lemma evaluate_rules_first:
  assumes "i < length rs" and "rule_matches M (rs ! i) q"
    and "\<forall>k<i. \<not> rule_matches M (rs ! k) q"
  shows "evaluate_rules M rs d q = policy (rs ! i)"
  using assms
proof (induction rs arbitrary: i)
  case Nil
  then show ?case by simp
next
  case (Cons r rs)
  show ?case
  proof (cases i)
    case 0
    with Cons.prems(2) show ?thesis by simp
  next
    case (Suc n)
    with Cons.prems have "\<not> rule_matches M r q"
      by auto
    moreover have "evaluate_rules M rs d q = policy (rs ! n)"
    proof (rule Cons.IH)
      show "n < length rs" using Cons.prems(1) Suc by simp
      show "rule_matches M (rs ! n) q" using Cons.prems(2) Suc by simp
      show "\<forall>k<n. \<not> rule_matches M (rs ! k) q"
      proof (intro allI impI)
        fix k assume "k < n"
        then have "Suc k < i" using Suc by simp
        with Cons.prems(3) have "\<not> rule_matches M ((r # rs) ! Suc k) q" by blast
        then show "\<not> rule_matches M (rs ! k) q" by simp
      qed
    qed
    ultimately show ?thesis
      using Suc by simp
  qed
qed

lemma evaluate_rules_default:
  "\<forall>r\<in>set rs. \<not> rule_matches M r q \<Longrightarrow> evaluate_rules M rs d q = d"
  by (induction rs) simp_all

text \<open>
  Claim C8. For every request and every rule set, \<open>Evaluate\<close> returns the policy of the
  first rule, in the configured order, that matches the request, whichever rules
  match after it and however specific they are; when no rule matches it returns the
  default policy of the rule set.
\<close>

theorem Evaluate_first_match_wins:
  "(\<forall>i<length (rules rs).
      rule_matches M (rules rs ! i) q \<and> (\<forall>k<i. \<not> rule_matches M (rules rs ! k) q) \<longrightarrow>
      Evaluate M rs q = policy (rules rs ! i)) \<and>
   ((\<forall>r\<in>set (rules rs). \<not> rule_matches M r q) \<longrightarrow> Evaluate M rs q = defaultPolicy rs)"
  unfolding Evaluate_def
  using evaluate_rules_first [of _ "rules rs" M q "defaultPolicy rs"]
    evaluate_rules_default [of "rules rs" M q "defaultPolicy rs"]
  by blast

theorem Evaluate_first_match_wins_witness:
  "rule_matches matchers_eq rule_wide request_john \<and>
   rule_matches matchers_eq rule_narrow request_john \<and>
   Evaluate matchers_eq \<lparr>rules = [rule_wide, rule_narrow], defaultPolicy = deny\<rparr> request_john
     = one_factor \<and>
   Evaluate matchers_eq \<lparr>rules = [rule_narrow, rule_wide], defaultPolicy = deny\<rparr> request_john
     = two_factor \<and>
   Evaluate matchers_eq \<lparr>rules = [rule_narrow], defaultPolicy = deny\<rparr>
       (request_john\<lparr>subject_name := ''harry''\<rparr>)
     = deny"
proof -
  have m: "rule_matches matchers_eq rule_wide request_john"
    "rule_matches matchers_eq rule_narrow request_john"
    "\<not> rule_matches matchers_eq rule_narrow (request_john\<lparr>subject_name := ''harry''\<rparr>)"
    by (simp_all add: rule_matches_def matchers_eq_def rule_wide_def rule_narrow_def
        request_john_def)
  let ?a = "\<lparr>rules = [rule_wide, rule_narrow], defaultPolicy = deny\<rparr>"
  let ?b = "\<lparr>rules = [rule_narrow, rule_wide], defaultPolicy = deny\<rparr>"
  let ?c = "\<lparr>rules = [rule_narrow], defaultPolicy = deny\<rparr>"
  have a: "Evaluate matchers_eq ?a request_john = policy (rules ?a ! 0)"
    using Evaluate_first_match_wins
      [of ?a matchers_eq request_john, THEN conjunct1, rule_format, of 0] m
    by simp
  have b: "Evaluate matchers_eq ?b request_john = policy (rules ?b ! 0)"
    using Evaluate_first_match_wins
      [of ?b matchers_eq request_john, THEN conjunct1, rule_format, of 0] m
    by simp
  have c: "Evaluate matchers_eq ?c (request_john\<lparr>subject_name := ''harry''\<rparr>) = defaultPolicy ?c"
    using Evaluate_first_match_wins
      [of ?c matchers_eq "request_john\<lparr>subject_name := ''harry''\<rparr>", THEN conjunct2] m
    by simp
  from a b c m show ?thesis
    by (simp add: rule_wide_def rule_narrow_def)
qed

end
